theory Spec2Isabelle
  imports Complex_Main "HOL-Library.AList" "HOL-Library.Sublist" "HOL-Library.Multiset"
begin

section \<open>Values and errors\<close>

text \<open>
  The program handles decoded JSON: the search results, the detail records and the
  review entries are Python values of type \<open>Any\<close>. They are modelled by \<open>jv\<close>;
  a Python \<open>dict\<close> is an association list read with \<open>map_of\<close> (the first
  binding of a key is the one that counts). Python floats are modelled as reals: the
  exceptions of the float operations are modelled (the range of \<open>float()\<close>, the
  domain of \<open>math.log10\<close>), rounding, infinities and NaN are not.
\<close>

datatype jv =
    JNull
  | JBool bool
  | JInt int
  | JFloat real
  | JStr string
  | JList "jv list"
  | JDict "(string \<times> jv) list"

type_synonym pydict = "(string \<times> jv) list"

text \<open>
  The exceptions the program can meet. \<open>IllTyped\<close> stands for a value outside the
  type that the source annotates for it (for instance a rating that is a string): what
  Python's dynamic coercions do there is not modelled.
\<close>

datatype py_error =
  ValueError | OverflowError | TypeError | AttributeError | OSError | IllTyped

section \<open>Composite score\<close>

text \<open>\<open>math.log10\<close>: a domain error for arguments that are not positive.\<close>

definition log10 :: "real \<Rightarrow> py_error + real" where
  "log10 x = (if x \<le> 0 then Inl ValueError else Inr (log 10 x))"

text \<open>
  \<open>float(n)\<close> for an integer \<open>n\<close>: the nearest double, and
  \<open>OverflowError\<close> when that is beyond the largest one, which is from
  \<open>2^1024 - 2^970\<close> on in absolute value.
\<close>

definition float_limit :: int where
  "float_limit = 2 ^ 1024 - 2 ^ 970"

definition py_float :: "int \<Rightarrow> py_error + real" where
  "py_float n = (if float_limit \<le> \<bar>n\<bar> then Inl OverflowError else Inr (real_of_int n))"

text \<open>
  \<open>rating or 0.0\<close> and \<open>review_count or 0\<close>: Python's \<open>or\<close> yields its
  right operand when the left one is \<open>None\<close> or zero.
\<close>

definition or_float :: "real option \<Rightarrow> real" where
  "or_float rating = (case rating of None \<Rightarrow> 0 | Some x \<Rightarrow> if x = 0 then 0 else x)"

definition or_int :: "int option \<Rightarrow> int" where
  "or_int review_count = (case review_count of None \<Rightarrow> 0 | Some n \<Rightarrow> if n = 0 then 0 else n)"

definition composite_score :: "real option \<Rightarrow> int option \<Rightarrow> py_error + real" where
  "composite_score rating review_count =
     (let r = or_float rating
      in case py_float (or_int review_count) of
           Inl e \<Rightarrow> Inl e
         | Inr v \<Rightarrow>
             (case log10 (1 + v) of
                Inl e \<Rightarrow> Inl e
              | Inr l \<Rightarrow> Inr (r * (1 + l))))"


section \<open>Python values: truthiness, dictionaries, strings\<close>

text \<open>Python's truth value of a decoded JSON value.\<close>

fun truthy :: "jv \<Rightarrow> bool" where
  "truthy JNull = False"
| "truthy (JBool b) = b"
| "truthy (JInt n) = (n \<noteq> 0)"
| "truthy (JFloat x) = (x \<noteq> 0)"
| "truthy (JStr s) = (s \<noteq> [])"
| "truthy (JList xs) = (xs \<noteq> [])"
| "truthy (JDict d) = (d \<noteq> [])"

text \<open>\<open>d.get(k)\<close> yields \<open>None\<close> for a missing key, \<open>d.get(k, v)\<close> yields \<open>v\<close>.\<close>

definition get_none :: "pydict \<Rightarrow> string \<Rightarrow> jv" where
  "get_none d k = (case map_of d k of None \<Rightarrow> JNull | Some v \<Rightarrow> v)"

definition get_default :: "pydict \<Rightarrow> string \<Rightarrow> jv \<Rightarrow> jv" where
  "get_default d k v = (case map_of d k of None \<Rightarrow> v | Some w \<Rightarrow> w)"

text \<open>
  \<open>{**p, **details}\<close>: the items of \<open>p\<close> in their order, each item of
  \<open>details\<close> stored in turn (a key already present keeps its place and takes the
  new value, a new key goes to the end).
\<close>

definition dict_merge :: "pydict \<Rightarrow> pydict \<Rightarrow> pydict" where
  "dict_merge p details = fold (\<lambda>(k, v) acc. AList.update k v acc) details p"

text \<open>
  Strings are lists of characters standing for the code points below 256.
  \<open>str.strip()\<close> removes the white space of \<open>str.isspace\<close> at both ends;
  below 256 that is 9 to 13, 28 to 32, 133 and 160.
\<close>

definition isspace :: "char \<Rightarrow> bool" where
  "isspace c = (let n = (of_char c :: nat) in
     (9 \<le> n \<and> n \<le> 13) \<or> (28 \<le> n \<and> n \<le> 32) \<or> n = 133 \<or> n = 160)"

definition strip :: "string \<Rightarrow> string" where
  "strip s = rev (dropWhile isspace (rev (dropWhile isspace s)))"




section \<open>The two requests\<close>

text \<open>
  \<open>requests.get\<close>, \<open>raise_for_status\<close> and \<open>resp.json()\<close> together either
  raise a \<open>RequestException\<close> or yield the decoded body (a failure to decode the body
  is the library's \<open>JSONDecodeError\<close>, a \<open>RequestException\<close>). The remote
  service is not part of the program: its answer is an argument.
\<close>

datatype request_exception = Timeout | ConnectionError | HTTPError | JSONDecodeError

datatype http_outcome = Raised request_exception | Returned jv

definition text_search_restaurants :: "string \<Rightarrow> string \<Rightarrow> http_outcome \<Rightarrow> py_error + jv" where
  "text_search_restaurants city api_key outcome =
     (case outcome of
        Raised e \<Rightarrow> Inr (JList [])
      | Returned data \<Rightarrow>
          (case data of
             JDict d \<Rightarrow> Inr (get_default d ''results'' (JList []))
           | _ \<Rightarrow> Inl AttributeError))"

definition fetch_place_details :: "jv \<Rightarrow> string \<Rightarrow> http_outcome \<Rightarrow> py_error + jv" where
  "fetch_place_details place_id api_key outcome =
     (case outcome of
        Raised e \<Rightarrow> Inr (JDict [])
      | Returned data \<Rightarrow>
          (case data of
             JDict d \<Rightarrow>
               Inr (if get_none d ''status'' = JStr ''OK''
                    then get_default d ''result'' (JDict [])
                    else JDict [])
           | _ \<Rightarrow> Inl AttributeError))"

section \<open>Scoring and selection\<close>

text \<open>
  The arguments of \<open>composite_score\<close> in \<open>main\<close> are values of the search
  result; the annotated types admit \<open>None\<close> and numbers.
\<close>

fun as_optional_float :: "jv \<Rightarrow> py_error + real option" where
  "as_optional_float JNull = Inr None"
| "as_optional_float (JFloat x) = Inr (Some x)"
| "as_optional_float (JInt n) = Inr (Some (real_of_int n))"
| "as_optional_float _ = Inl IllTyped"

fun as_optional_int :: "jv \<Rightarrow> py_error + int option" where
  "as_optional_int JNull = Inr None"
| "as_optional_int (JInt n) = Inr (Some n)"
| "as_optional_int _ = Inl IllTyped"

text \<open>
  One turn of the first loop of \<open>main\<close>:
  \<open>p["_score"] = composite_score(p.get("rating"), p.get("user_ratings_total"))\<close>.
  An entry that is not a dictionary has no \<open>get\<close>.
\<close>

definition score_place :: "jv \<Rightarrow> py_error + pydict" where
  "score_place p =
     (case p of
        JDict d \<Rightarrow>
          (case as_optional_float (get_none d ''rating'') of
             Inl e \<Rightarrow> Inl e
           | Inr rating \<Rightarrow>
               (case as_optional_int (get_none d ''user_ratings_total'') of
                  Inl e \<Rightarrow> Inl e
                | Inr review_count \<Rightarrow>
                    (case composite_score rating review_count of
                       Inl e \<Rightarrow> Inl e
                     | Inr s \<Rightarrow> Inr (AList.update ''_score'' (JFloat s) d))))
      | _ \<Rightarrow> Inl AttributeError)"

fun score_all :: "jv list \<Rightarrow> py_error + pydict list" where
  "score_all [] = Inr []"
| "score_all (p # ps) =
     (case score_place p of
        Inl e \<Rightarrow> Inl e
      | Inr d \<Rightarrow>
          (case score_all ps of
             Inl e \<Rightarrow> Inl e
           | Inr ds \<Rightarrow> Inr (d # ds)))"


text \<open>
  The sort key \<open>d.get("_score", 0.0)\<close>. After the scoring loop every place holds a
  float there; the last case is not met then.
\<close>

definition score_key :: "pydict \<Rightarrow> real" where
  "score_key d = (case map_of d ''_score'' of Some (JFloat x) \<Rightarrow> x | _ \<Rightarrow> 0)"

text \<open>
  \<open>sorted(xs, key=f, reverse=True)\<close>: the list is reversed, sorted upwards by a
  stable sort and reversed again. The keys determine the result of a stable sort, so the
  library's stable \<open>sort_key\<close> stands for Python's.
\<close>

definition sorted_reverse :: "('a \<Rightarrow> real) \<Rightarrow> 'a list \<Rightarrow> 'a list" where
  "sorted_reverse f xs = rev (sort_key f (rev xs))"

definition top_candidates :: "pydict list \<Rightarrow> pydict list" where
  "top_candidates scored = take 10 (sorted_reverse score_key scored)"

section \<open>Enrichment\<close>

text \<open>
  \<open>if details: enriched.append({**p, **details})\<close>: nothing for a false value, the
  merged dictionary for a dictionary; any other true value is not a mapping.
\<close>

definition enrich_one :: "pydict \<Rightarrow> jv \<Rightarrow> py_error + pydict list" where
  "enrich_one p details =
     (if truthy details
      then (case details of JDict d \<Rightarrow> Inr [dict_merge p d] | _ \<Rightarrow> Inl TypeError)
      else Inr [])"

text \<open>
  The second loop of \<open>main\<close>. \<open>net i\<close> is the outcome of the request number
  \<open>i\<close> of the run.
\<close>

fun enrich :: "(nat \<Rightarrow> http_outcome) \<Rightarrow> string \<Rightarrow> nat \<Rightarrow> pydict list \<Rightarrow> py_error + pydict list" where
  "enrich net api_key i [] = Inr []"
| "enrich net api_key i (p # ps) =
     (case fetch_place_details (get_none p ''place_id'') api_key (net i) of
        Inl e \<Rightarrow> Inl e
      | Inr details \<Rightarrow>
          (case enrich_one p details of
             Inl e \<Rightarrow> Inl e
           | Inr this \<Rightarrow>
               (case enrich net api_key (Suc i) ps of
                  Inl e \<Rightarrow> Inl e
                | Inr rest \<Rightarrow> Inr (this @ rest))))"

section \<open>Projection\<close>

text \<open>\<open>(rev.get("text") or "").strip()\<close>: only a string has \<open>strip\<close>.\<close>

definition snippet :: "pydict \<Rightarrow> py_error + string" where
  "snippet r =
     (let t = get_none r ''text'';
          s = (if truthy t then t else JStr [])
      in case s of JStr x \<Rightarrow> Inr (strip x) | _ \<Rightarrow> Inl AttributeError)"

text \<open>
  \<open>(p.get("reviews") or [])[:3]\<close>, as the list of the values the comprehension
  meets: the slice of a string gives its characters; a number or a dictionary cannot be
  sliced.
\<close>

definition first_three :: "jv \<Rightarrow> py_error + jv list" where
  "first_three reviews =
     (case (if truthy reviews then reviews else JList []) of
        JList xs \<Rightarrow> Inr (take 3 xs)
      | JStr s \<Rightarrow> Inr (map (\<lambda>c. JStr [c]) (take 3 s))
      | _ \<Rightarrow> Inl TypeError)"

text \<open>The comprehension: entries that are not dictionaries are passed over.\<close>

fun snippets :: "jv list \<Rightarrow> py_error + string list" where
  "snippets [] = Inr []"
| "snippets (JDict d # revs) =
     (case snippet d of
        Inl e \<Rightarrow> Inl e
      | Inr s \<Rightarrow>
          (case snippets revs of
             Inl e \<Rightarrow> Inl e
           | Inr ss \<Rightarrow> Inr (s # ss)))"
| "snippets (_ # revs) = snippets revs"

definition review_snippets :: "pydict \<Rightarrow> py_error + string list" where
  "review_snippets p =
     (case first_three (get_none p ''reviews'') of
        Inl e \<Rightarrow> Inl e
      | Inr revs \<Rightarrow> snippets revs)"





section \<open>The run\<close>






section \<open>Notions used to state the properties\<close>

text \<open>
  \<open>scored_as p d\<close>: \<open>d\<close> is the search result \<open>p\<close> with its composite score
  stored under \<open>_score\<close>, and the sort key of \<open>d\<close> is that score.
\<close>

definition scored_as :: "jv \<Rightarrow> pydict \<Rightarrow> bool" where
  "scored_as p d =
     (\<exists>d0 r v. p = JDict d0 \<and>
        as_optional_float (get_none d0 ''rating'') = Inr r \<and>
        as_optional_int (get_none d0 ''user_ratings_total'') = Inr v \<and>
        composite_score r v = Inr (score_key d) \<and>
        d = AList.update ''_score'' (JFloat (score_key d)) d0)"

text \<open>The entries of a reviews list that are records, in their order.\<close>

fun records :: "jv list \<Rightarrow> pydict list" where
  "records [] = []"
| "records (JDict d # rs) = d # records rs"
| "records (_ # rs) = records rs"

text \<open>The text of a review, empty when there is none (or a false value).\<close>

definition text_or_empty :: "pydict \<Rightarrow> string" where
  "text_or_empty d = (case map_of d ''text'' of Some (JStr s) \<Rightarrow> s | _ \<Rightarrow> [])"

text \<open>A review whose text, if any, is a string or a false value.\<close>

definition text_ok :: "pydict \<Rightarrow> bool" where
  "text_ok d = (case get_none d ''text'' of JStr s \<Rightarrow> True | t \<Rightarrow> \<not> truthy t)"


section \<open>Example data\<close>

text \<open>Eleven search results; the places e, i and k tie, and so do a and j, b and d.\<close>

definition example_results :: "jv list" where
  "example_results =
     map (\<lambda>(name, n). JDict [(''name'', JStr name), (''rating'', JInt n)])
       [(''a'', 3), (''b'', 1), (''c'', 4), (''d'', 1), (''e'', 5), (''f'', 9),
        (''g'', 2), (''h'', 6), (''i'', 5), (''j'', 3), (''k'', 5)]"

definition example_scored :: "pydict list" where
  "example_scored =
     map (\<lambda>(name, n). [(''name'', JStr name), (''rating'', JInt n),
                         (''_score'', JFloat (real_of_int n))])
       [(''a'', 3), (''b'', 1), (''c'', 4), (''d'', 1), (''e'', 5), (''f'', 9),
        (''g'', 2), (''h'', 6), (''i'', 5), (''j'', 3), (''k'', 5)]"

text \<open>
  A service that answers the search with two places, has no details for the first
  detail request and answers the later ones.
\<close>

definition example_net :: "nat \<Rightarrow> http_outcome" where
  "example_net n =
     (if n = 0 then
        Returned (JDict [(''status'', JStr ''OK''),
          (''results'', JList
             [JDict [(''place_id'', JStr ''a''), (''name'', JStr ''Alpha''), (''rating'', JInt 4)],
              JDict [(''place_id'', JStr ''b''), (''name'', JStr ''Beta''),
                     (''rating'', JFloat 4.5), (''user_ratings_total'', JInt 9)]])])
      else if n = 1 then Returned (JDict [(''status'', JStr ''ZERO_RESULTS'')])
      else Returned (JDict [(''status'', JStr ''OK''),
          (''result'', JDict [(''name'', JStr ''Alpha Grill''),
             (''reviews'', JList [JDict [(''text'', JStr '' fine '')]])])]))"




definition example_place :: pydict where
  "example_place =
     [(''name'', JStr ''A''),
      (''reviews'', JList
         [JInt 7,
          JDict [(''text'', JStr '' good '')],
          JDict [(''author'', JStr ''x'')],
          JDict [(''text'', JStr ''c'')],
          JDict [(''text'', JStr ''d'')],
          JDict [(''text'', JStr ''e'')]])]"

section \<open>Properties of the composite score\<close>

lemma float_limit_pos: "0 < float_limit"
  by (simp add: float_limit_def)

lemma py_float_in_range: "\<bar>n\<bar> < float_limit \<Longrightarrow> py_float n = Inr (real_of_int n)"
  by (simp add: py_float_def)

lemma py_float_0: "py_float 0 = Inr 0"
  using py_float_in_range [of 0] float_limit_pos by simp

lemma py_float_9: "py_float 9 = Inr 9"
  using py_float_in_range [of 9] by (simp add: float_limit_def)



lemma composite_score_huge_count:
  "float_limit \<le> \<bar>or_int v\<bar> \<Longrightarrow> composite_score r v = Inl OverflowError"
  by (simp add: composite_score_def py_float_def)






text \<open>
  Claim C3, as written, says that the rating 0 scores 0 at every review count from 0 on,
  and that the score is monotone there. At the count \<open>2^1024\<close> the conversion
  \<open>float(review_count)\<close> raises \<open>OverflowError\<close>: there is no score.
\<close>

theorem C3_huge_count_raises:
  "composite_score (Some 0) (Some (2 ^ 1024)) = Inl OverflowError \<and>
   composite_score (Some 0) (Some (2 ^ 1024)) \<noteq> Inr 0"
proof -
  have huge: "composite_score (Some 0) (Some (2 ^ 1024)) = Inl OverflowError"
    using composite_score_huge_count [of "Some (2 ^ 1024)" "Some 0"]
    by (simp add: or_int_def float_limit_def)
  show ?thesis
    unfolding huge by simp
qed

text \<open>
  Claim C3, amended: for ratings in \<open>[0, 5]\<close> and review counts in
  \<open>0 \<le> v < 2^1024 - 2^970\<close> the score is returned, it does not decrease when the
  rating grows nor when the review count grows, and the rating 0 scores 0 at every such
  count.
\<close>

theorem C3_composite_score_monotone:
  assumes "0 \<le> r1" "r1 \<le> r2" "r2 \<le> 5" "0 \<le> v1" "v1 \<le> v2" "v2 < 2 ^ 1024 - 2 ^ 970"
  shows "\<exists>a b c. composite_score (Some r1) (Some v1) = Inr a \<and>
                 composite_score (Some r2) (Some v1) = Inr b \<and>
                 composite_score (Some r1) (Some v2) = Inr c \<and>
                 a \<le> b \<and> a \<le> c \<and>
                 composite_score (Some 0) (Some v1) = Inr 0"
proof -
  have l1: "0 \<le> log 10 (1 + real_of_int v1)"
    using assms by simp
  have l2: "log 10 (1 + real_of_int v1) \<le> log 10 (1 + real_of_int v2)"
    using assms by simp
  have in_r: "r1 * (1 + log 10 (1 + real_of_int v1)) \<le> r2 * (1 + log 10 (1 + real_of_int v1))"
    using assms l1 by (intro mult_right_mono) auto
  have in_v: "r1 * (1 + log 10 (1 + real_of_int v1)) \<le> r1 * (1 + log 10 (1 + real_of_int v2))"
    using assms l2 by (intro mult_left_mono) auto
  have f1: "py_float v1 = Inr (real_of_int v1)" and f2: "py_float v2 = Inr (real_of_int v2)"
    using assms by (simp_all add: py_float_in_range float_limit_def)
  have o1: "or_int (Some v1) = v1" and o2: "or_int (Some v2) = v2"
    by (simp_all add: or_int_def)
  show ?thesis
    using assms in_r in_v
    by (auto simp: composite_score_def log10_def f1 f2 o1 o2 or_float_def)
qed

theorem C3_composite_score_monotone_witness:
  "\<exists>a b c. composite_score (Some 2) (Some 0) = Inr a \<and>
           composite_score (Some 4) (Some 0) = Inr b \<and>
           composite_score (Some 2) (Some 9) = Inr c \<and>
           a \<le> b \<and> a \<le> c \<and>
           composite_score (Some 0) (Some 0) = Inr 0"
  using C3_composite_score_monotone [of 2 4 0 9] by simp

section \<open>Selection\<close>

lemma length_sorted_reverse: "length (sorted_reverse f xs) = length xs"
  by (simp add: sorted_reverse_def)

lemma mset_sorted_reverse: "mset (sorted_reverse f xs) = mset xs"
  by (simp add: sorted_reverse_def)

lemma sorted_reverse_descending:
  "sorted_wrt (\<lambda>p q. f q \<le> f p) (sorted_reverse f xs)"
proof -
  have "sorted (map f (sort_key f (rev xs)))"
    by simp
  then have "sorted_wrt (\<lambda>p q. f p \<le> f q) (sort_key f (rev xs))"
    by (simp add: sorted_wrt_map)
  then show ?thesis
    by (simp add: sorted_reverse_def sorted_wrt_rev)
qed

lemma sorted_reverse_stable:
  "filter (\<lambda>y. f y = k) (sorted_reverse f xs) = filter (\<lambda>y. f y = k) xs"
proof -
  have "filter (\<lambda>y. f y = k) (sorted_reverse f xs)
      = rev (filter (\<lambda>y. f y = k) (sort_key f (rev xs)))"
    by (simp add: sorted_reverse_def rev_filter)
  also have "\<dots> = rev (filter (\<lambda>y. f y = k) (rev xs))"
    by (simp only: sort_key_stable)
  also have "\<dots> = filter (\<lambda>y. f y = k) xs"
    by (simp add: rev_filter)
  finally show ?thesis .
qed

lemma prefix_filter_take: "prefix (filter P (take n xs)) (filter P xs)"
  by (rule filter_mono_prefix) (rule take_is_prefix)

lemma score_key_update: "score_key (AList.update ''_score'' (JFloat s) d) = s"
  by (simp add: score_key_def update_conv')

lemma score_place_Inr: "score_place p = Inr d \<Longrightarrow> scored_as p d"
  by (auto simp: score_place_def scored_as_def score_key_update split: jv.splits sum.splits)

lemma score_all_Inr:
  "score_all raw = Inr scored \<Longrightarrow> list_all2 (\<lambda>p d. score_place p = Inr d) raw scored"
  by (induction raw arbitrary: scored) (auto split: sum.splits)

lemma example_results_scored: "score_all example_results = Inr example_scored"
  by (simp add: example_results_def example_scored_def score_place_def get_none_def
      composite_score_def log10_def py_float_0 py_float_9 or_float_def or_int_def)

lemma example_top_candidates:
  "top_candidates example_scored =
     map (\<lambda>(name, n). [(''name'', JStr name), (''rating'', JInt n),
                         (''_score'', JFloat (real_of_int n))])
       [(''f'', 9), (''h'', 6), (''e'', 5), (''i'', 5), (''k'', 5), (''c'', 4),
        (''a'', 3), (''j'', 3), (''g'', 2), (''b'', 1)]"
  by (simp add: top_candidates_def sorted_reverse_def example_scored_def score_key_def)

text \<open>
  Claim C4: when the scoring loop has scored the search results, the selection is the
  first 10 entries of the results sorted by falling composite score; the sort is stable
  (places of equal score keep the order of the search results, also among the first 10);
  the selection has \<open>min 10 n\<close> entries for \<open>n\<close> results, never more than 10.
\<close>

theorem C4_selection_sorted_stable_top10:
  assumes "score_all raw = Inr scored"
  shows "list_all2 scored_as raw scored \<and>
         length (top_candidates scored) = min 10 (length raw) \<and>
         length (top_candidates scored) \<le> 10 \<and>
         prefix (top_candidates scored) (sorted_reverse score_key scored) \<and>
         mset (sorted_reverse score_key scored) = mset scored \<and>
         sorted_wrt (\<lambda>p q. score_key q \<le> score_key p) (sorted_reverse score_key scored) \<and>
         (\<forall>s. filter (\<lambda>d. score_key d = s) (sorted_reverse score_key scored)
              = filter (\<lambda>d. score_key d = s) scored) \<and>
         (\<forall>s. prefix (filter (\<lambda>d. score_key d = s) (top_candidates scored))
                     (filter (\<lambda>d. score_key d = s) scored))"
proof -
  have all2: "list_all2 (\<lambda>p d. score_place p = Inr d) raw scored"
    using assms by (rule score_all_Inr)
  then have a: "list_all2 scored_as raw scored"
    by (rule list_all2_mono) (rule score_place_Inr)
  have len: "length scored = length raw"
    using all2 by (simp add: list_all2_lengthD)
  have b: "length (top_candidates scored) = min 10 (length raw)"
    by (simp add: top_candidates_def length_sorted_reverse len min.commute)
  have c: "prefix (top_candidates scored) (sorted_reverse score_key scored)"
    unfolding top_candidates_def by (rule take_is_prefix)
  have d: "\<forall>s. prefix (filter (\<lambda>d. score_key d = s) (top_candidates scored))
                     (filter (\<lambda>d. score_key d = s) scored)"
  proof
    fix s
    have "prefix (filter (\<lambda>d. score_key d = s) (top_candidates scored))
                 (filter (\<lambda>d. score_key d = s) (sorted_reverse score_key scored))"
      unfolding top_candidates_def by (rule prefix_filter_take)
    then show "prefix (filter (\<lambda>d. score_key d = s) (top_candidates scored))
                     (filter (\<lambda>d. score_key d = s) scored)"
      by (simp only: sorted_reverse_stable)
  qed
  show ?thesis
    using a b c d
    by (simp add: mset_sorted_reverse sorted_reverse_descending sorted_reverse_stable)
qed

theorem C4_selection_witness:
  "score_all example_results = Inr example_scored \<and>
   length example_results = 11 \<and>
   length (top_candidates example_scored) = 10 \<and>
   map (\<lambda>d. get_none d ''name'') (filter (\<lambda>d. score_key d = 5) (top_candidates example_scored))
     = [JStr ''e'', JStr ''i'', JStr ''k''] \<and>
   prefix (filter (\<lambda>d. score_key d = 5) (top_candidates example_scored))
          (filter (\<lambda>d. score_key d = 5) example_scored)"
proof -
  have n: "length example_results = 11"
    by (simp add: example_results_def)
  have names: "map (\<lambda>d. get_none d ''name'')
       (filter (\<lambda>d. score_key d = 5) (top_candidates example_scored))
     = [JStr ''e'', JStr ''i'', JStr ''k'']"
    by (simp add: example_top_candidates score_key_def get_none_def)
  from C4_selection_sorted_stable_top10 [OF example_results_scored]
  show ?thesis
    using example_results_scored n names by simp
qed

section \<open>Enrichment keeps the fetched records in order\<close>

lemma map_of_fold_update:
  "distinct (map fst d) \<Longrightarrow>
   map_of (fold (\<lambda>(k, v) acc. AList.update k v acc) d p) = map_of p ++ map_of d"
proof (induction d arbitrary: p)
  case Nil
  then show ?case by simp
next
  case (Cons kv d)
  obtain k v where kv: "kv = (k, v)"
    by (cases kv)
  from Cons.prems kv have notin: "k \<notin> fst ` set d" and dist: "distinct (map fst d)"
    by auto
  have "map_of (fold (\<lambda>(k, v) acc. AList.update k v acc) (kv # d) p)
      = map_of (AList.update k v p) ++ map_of d"
    using Cons.IH [OF dist] kv by simp
  also have "\<dots> = (map_of p)(k \<mapsto> v) ++ map_of d"
    by (simp add: update_conv')
  also have "\<dots> = (map_of p ++ map_of d)(k \<mapsto> v)"
    using notin by (intro map_add_upd_left) (simp add: dom_map_of_conv_image_fst)
  also have "\<dots> = map_of p ++ map_of (kv # d)"
    using kv by simp
  finally show ?case .
qed

lemma map_of_dict_merge:
  "distinct (map fst d) \<Longrightarrow> map_of (dict_merge p d) = map_of p ++ map_of d"
  unfolding dict_merge_def by (rule map_of_fold_update)

lemma enrich_one_record:
  "enrich_one p (JDict d) = Inr (if d = [] then [] else [dict_merge p d])"
  by (simp add: enrich_one_def)

lemma enrich_records:
  assumes "length ds = length cands"
    and "\<forall>k<length cands.
           fetch_place_details (get_none (cands ! k) ''place_id'') api_key (net (i + k))
             = Inr (JDict (ds ! k))"
  shows "enrich net api_key i cands =
           Inr (map (\<lambda>(p, d). dict_merge p d) (filter (\<lambda>(p, d). d \<noteq> []) (zip cands ds)))"
  using assms
proof (induction cands arbitrary: i ds)
  case Nil
  then show ?case by simp
next
  case (Cons p ps)
  from Cons.prems(1) obtain d ds' where ds: "ds = d # ds'" and len: "length ds' = length ps"
    by (cases ds) auto
  from Cons.prems(2) have hd:
    "fetch_place_details (get_none p ''place_id'') api_key (net i) = Inr (JDict d)"
    using ds by (auto dest: spec [of _ 0])
  have tl: "\<forall>k<length ps.
           fetch_place_details (get_none (ps ! k) ''place_id'') api_key (net (Suc i + k))
             = Inr (JDict (ds' ! k))"
  proof (intro allI impI)
    fix k
    assume "k < length ps"
    then have "Suc k < length (p # ps)"
      by simp
    with Cons.prems(2) have
      "fetch_place_details (get_none ((p # ps) ! Suc k) ''place_id'') api_key (net (i + Suc k))
         = Inr (JDict (ds ! Suc k))"
      by blast
    then show "fetch_place_details (get_none (ps ! k) ''place_id'') api_key (net (Suc i + k))
                 = Inr (JDict (ds' ! k))"
      using ds by simp
  qed
  have rest: "enrich net api_key (Suc i) ps =
      Inr (map (\<lambda>(p, d). dict_merge p d) (filter (\<lambda>(p, d). d \<noteq> []) (zip ps ds')))"
    by (rule Cons.IH [OF len tl])
  show ?case
    by (simp add: hd rest ds enrich_one_record)
qed

lemma subseq_kept: "subseq (map fst (filter P (zip xs ys))) xs"
proof -
  have "subseq (map fst (filter P (zip xs ys))) (map fst (zip xs ys))"
    by (intro subseq_map subseq_filter_left)
  moreover have "subseq (map fst (zip xs ys)) xs"
    by (simp add: map_fst_zip_take prefix_imp_subseq take_is_prefix)
  ultimately show ?thesis
    by (rule subseq_order.trans)
qed

text \<open>
  Claim C5: let the detail fetch of the \<open>k\<close>-th selected candidate return the record
  \<open>ds ! k\<close>. The enriched list holds, in the order of the selection, one entry for each
  candidate whose record is not empty: the candidate's fields overlaid by the record's
  (the record's value wins on a common key). Candidates with an empty record are left
  out, and nothing else comes in: the candidates kept are a subsequence of the selection.
\<close>

theorem C5_enrichment_keeps_nonempty_in_order:
  assumes "length ds = length cands"
    and "\<forall>k<length cands.
           fetch_place_details (get_none (cands ! k) ''place_id'') api_key (net (i + k))
             = Inr (JDict (ds ! k))"
  shows "enrich net api_key i cands =
           Inr (map (\<lambda>(p, d). dict_merge p d)
                  (filter (\<lambda>(p, d). d \<noteq> []) (zip cands ds))) \<and>
         subseq (map fst (filter (\<lambda>(p, d). d \<noteq> []) (zip cands ds))) cands \<and>
         (\<forall>p d. distinct (map fst d) \<longrightarrow> map_of (dict_merge p d) = map_of p ++ map_of d)"
  using enrich_records [OF assms] subseq_kept [of _ cands ds] map_of_dict_merge
  by blast

theorem C5_enrichment_witness:
  "enrich example_net ''k'' 1
     [[(''place_id'', JStr ''b''), (''name'', JStr ''Beta'')],
      [(''place_id'', JStr ''a''), (''name'', JStr ''Alpha''), (''rating'', JInt 4)]]
   = Inr [[(''place_id'', JStr ''a''), (''name'', JStr ''Alpha Grill''), (''rating'', JInt 4),
           (''reviews'', JList [JDict [(''text'', JStr '' fine '')]])]]"
proof -
  let ?cands = "[[(''place_id'', JStr ''b''), (''name'', JStr ''Beta'')],
      [(''place_id'', JStr ''a''), (''name'', JStr ''Alpha''), (''rating'', JInt 4)]]"
  let ?ds = "[[], [(''name'', JStr ''Alpha Grill''),
                   (''reviews'', JList [JDict [(''text'', JStr '' fine '')]])]]"
  have len: "length ?ds = length ?cands"
    by simp
  have fetched: "\<forall>k<length ?cands.
      fetch_place_details (get_none (?cands ! k) ''place_id'') ''k'' (example_net (1 + k))
        = Inr (JDict (?ds ! k))"
    by (simp add: less_Suc_eq example_net_def fetch_place_details_def get_none_def
        get_default_def)
  from C5_enrichment_keeps_nonempty_in_order [OF len fetched]
  show ?thesis
    by (simp add: dict_merge_def)
qed

section \<open>The two requests: what is caught\<close>

text \<open>
  Claim C6, as written, says that every details response gives a record and no error
  outward. A body that decodes to a JSON value other than an object (here an empty
  array) has no \<open>get\<close>: the \<open>AttributeError\<close> is not a \<open>RequestException\<close>
  and leaves the function.
\<close>

theorem C6_non_object_body_raises:
  "fetch_place_details (JStr ''a'') ''k'' (Returned (JList [])) = Inl AttributeError"
  by (simp add: fetch_place_details_def)

text \<open>
  Claim C6, amended: for every details response whose body decodes to a JSON object,
  \<open>fetch_place_details\<close> returns the value under \<open>result\<close> (an empty record when
  there is none) only when the status is \<open>"OK"\<close>, and an empty record on any other
  or missing status; on any \<open>RequestException\<close> (timeout, connection failure, HTTP
  error status, body that is not JSON) it returns an empty record and raises nothing.
\<close>

theorem C6_fetch_place_details_result:
  "fetch_place_details place_id api_key (Raised e) = Inr (JDict []) \<and>
   fetch_place_details place_id api_key (Returned (JDict d)) =
     Inr (if map_of d ''status'' = Some (JStr ''OK'')
          then (case map_of d ''result'' of None \<Rightarrow> JDict [] | Some r \<Rightarrow> r)
          else JDict [])"
  by (auto simp: fetch_place_details_def get_none_def get_default_def split: option.splits)

text \<open>
  Claim C7, as written, says that no search invocation raises outward: it returns the
  results on success and an empty list on a malformed response. A body that is a bare
  JSON array of places is neither returned nor turned into an empty list: the
  \<open>AttributeError\<close> of \<open>data.get\<close> leaves the function.
\<close>

theorem C7_non_object_body_raises:
  "text_search_restaurants ''Paris'' ''k'' (Returned (JList [JDict [(''name'', JStr ''A'')]]))
     = Inl AttributeError"
  by (simp add: text_search_restaurants_def)

text \<open>
  Claim C7, amended: when the body decodes to a JSON object, \<open>text_search_restaurants\<close>
  returns the value under \<open>results\<close> (an empty list when there is none); on any
  \<open>RequestException\<close> (timeout, connection failure, HTTP error status, body that is
  not JSON) it raises nothing and returns an empty list, the very value it returns for
  an answer with no results.
\<close>

theorem C7_text_search_result:
  "text_search_restaurants city api_key (Raised e) = Inr (JList []) \<and>
   text_search_restaurants city api_key (Returned (JDict d)) =
     Inr (case map_of d ''results'' of None \<Rightarrow> JList [] | Some r \<Rightarrow> r) \<and>
   text_search_restaurants city api_key (Raised e) =
     text_search_restaurants city api_key (Returned (JDict [(''results'', JList [])]))"
  by (auto simp: text_search_restaurants_def get_default_def split: option.splits)

section \<open>Review snippets\<close>

lemma snippet_Inr: "snippet d = Inr s \<Longrightarrow> s = strip (text_or_empty d)"
  by (auto simp: snippet_def text_or_empty_def get_none_def Let_def strip_def
      split: option.splits jv.splits if_splits)

lemma snippet_text_ok: "text_ok d \<Longrightarrow> snippet d = Inr (strip (text_or_empty d))"
  by (auto simp: snippet_def text_or_empty_def text_ok_def get_none_def Let_def strip_def
      split: option.splits jv.splits if_splits)

lemma snippet_no_text: "map_of d ''text'' = None \<Longrightarrow> snippet d = Inr []"
  by (simp add: snippet_def get_none_def strip_def)

lemma snippets_Inr:
  "snippets revs = Inr ss \<Longrightarrow> ss = map (\<lambda>d. strip (text_or_empty d)) (records revs)"
  by (induction revs arbitrary: ss rule: snippets.induct)
     (auto split: sum.splits dest: snippet_Inr)

lemma snippets_text_ok:
  "\<forall>d\<in>set (records revs). text_ok d \<Longrightarrow>
   snippets revs = Inr (map (\<lambda>d. strip (text_or_empty d)) (records revs))"
  by (induction revs rule: snippets.induct) (auto simp: snippet_text_ok)

lemma length_records: "length (records revs) \<le> length revs"
  by (induction revs rule: records.induct) auto

lemma length_records_less:
  "\<exists>r\<in>set revs. \<forall>d. r \<noteq> JDict d \<Longrightarrow> length (records revs) < length revs"
proof (induction revs rule: records.induct)
  case 1
  then show ?case by simp
next
  case (2 d rs)
  then show ?case by auto
qed (use length_records in \<open>auto simp: less_Suc_eq_le\<close>)

lemma records_chars: "records (map (\<lambda>c. JStr [c]) s) = []"
  by (induction s) auto

lemma first_three_cases:
  "first_three reviews = Inr revs \<Longrightarrow>
     (\<exists>xs. reviews = JList xs \<and> revs = take 3 xs) \<or>
     ((\<forall>xs. reviews \<noteq> JList xs) \<and> records revs = [])"
  by (cases reviews) (auto simp: first_three_def records_chars split: if_splits)

lemma first_three_list: "first_three (JList xs) = Inr (take 3 xs)"
  by (cases xs) (simp_all add: first_three_def)

lemma example_place_reviews:
  "get_none example_place ''reviews'' =
     JList [JInt 7, JDict [(''text'', JStr '' good '')], JDict [(''author'', JStr ''x'')],
            JDict [(''text'', JStr ''c'')], JDict [(''text'', JStr ''d'')],
            JDict [(''text'', JStr ''e'')]]"
  by (simp add: example_place_def get_none_def)

lemma example_place_snippets: "review_snippets example_place = Inr [''good'', '''']"
  by code_simp

text \<open>
  Claim C8: the snippets projected for a place are at most 3; each is the text of a
  review record among the first 3 entries of the reviews, without the white space at
  its ends; a record with no text gives the empty string, not an error; entries that
  are not records give nothing. When the reviews are a list and the texts are strings
  (or absent), the projection returns this list.
\<close>

theorem C8_review_snippets:
  "(review_snippets p = Inr ss \<longrightarrow>
      length ss \<le> 3 \<and>
      (\<forall>xs. get_none p ''reviews'' = JList xs \<longrightarrow>
         ss = map (\<lambda>d. strip (text_or_empty d)) (records (take 3 xs))) \<and>
      ((\<forall>xs. get_none p ''reviews'' \<noteq> JList xs) \<longrightarrow> ss = [])) \<and>
   (get_none p ''reviews'' = JList xs \<and> (\<forall>d\<in>set (records (take 3 xs)). text_ok d) \<longrightarrow>
      review_snippets p = Inr (map (\<lambda>d. strip (text_or_empty d)) (records (take 3 xs)))) \<and>
   (map_of d ''text'' = None \<longrightarrow> snippet d = Inr [])"
proof (intro conjI impI)
  assume r: "review_snippets p = Inr ss"
  then obtain revs where f: "first_three (get_none p ''reviews'') = Inr revs"
    and s: "snippets revs = Inr ss"
    by (auto simp: review_snippets_def split: sum.splits)
  have ss: "ss = map (\<lambda>d. strip (text_or_empty d)) (records revs)"
    using s by (rule snippets_Inr)
  have "length revs \<le> 3"
    using f by (auto simp: first_three_def split: jv.splits if_splits)
  with length_records [of revs] show "length ss \<le> 3"
    by (simp add: ss)
  show "\<forall>xs. get_none p ''reviews'' = JList xs \<longrightarrow>
         ss = map (\<lambda>d. strip (text_or_empty d)) (records (take 3 xs))"
    using first_three_cases [OF f] ss by auto
  show "ss = []" if "\<forall>xs. get_none p ''reviews'' \<noteq> JList xs"
    using first_three_cases [OF f] ss that by auto
next
  assume a: "get_none p ''reviews'' = JList xs \<and> (\<forall>d\<in>set (records (take 3 xs)). text_ok d)"
  then show "review_snippets p = Inr (map (\<lambda>d. strip (text_or_empty d)) (records (take 3 xs)))"
    by (simp add: review_snippets_def first_three_list snippets_text_ok)
next
  assume "map_of d ''text'' = None"
  then show "snippet d = Inr []"
    by (rule snippet_no_text)
qed

theorem C8_review_snippets_witness:
  "review_snippets example_place = Inr [''good'', ''''] \<and>
   length [''good'', ''''] \<le> (3::nat) \<and>
   [''good'', ''''] =
     map (\<lambda>d. strip (text_or_empty d))
       (records (take 3 [JInt 7, JDict [(''text'', JStr '' good '')],
          JDict [(''author'', JStr ''x'')], JDict [(''text'', JStr ''c'')],
          JDict [(''text'', JStr ''d'')], JDict [(''text'', JStr ''e'')]])) \<and>
   snippet [(''author'', JStr ''x'')] = Inr []"
  using C8_review_snippets [of example_place "[''good'', '''']"
      "[JInt 7, JDict [(''text'', JStr '' good '')], JDict [(''author'', JStr ''x'')],
        JDict [(''text'', JStr ''c'')], JDict [(''text'', JStr ''d'')],
        JDict [(''text'', JStr ''e'')]]"
      "[(''author'', JStr ''x'')]"]
    example_place_snippets example_place_reviews
  by simp

text \<open>
  Claim C10: the projection cuts the reviews list to its first 3 entries and only then
  passes over the entries that are not records: what comes after the third entry never
  counts, so a list with an entry that is not a record among its first 3 gives fewer
  than 3 snippets, however many records follow.
\<close>

theorem C10_slice_before_filter:
  assumes "get_none p ''reviews'' = JList xs"
    and "review_snippets p = Inr ss"
    and "\<exists>r\<in>set (take 3 xs). \<forall>d. r \<noteq> JDict d"
  shows "length ss < 3 \<and> review_snippets p = snippets (take 3 xs) \<and>
         ss = map (\<lambda>d. strip (text_or_empty d)) (records (take 3 xs))"
proof -
  have eq: "review_snippets p = snippets (take 3 xs)"
    using assms(1) by (simp add: review_snippets_def first_three_list)
  with assms(2) have ss: "ss = map (\<lambda>d. strip (text_or_empty d)) (records (take 3 xs))"
    by (simp add: snippets_Inr)
  have "length (records (take 3 xs)) < length (take 3 xs)"
    using assms(3) by (rule length_records_less)
  then have "length ss < 3"
    by (simp add: ss)
  with eq ss show ?thesis
    by simp
qed

theorem C10_slice_before_filter_witness:
  "length (records [JInt 7, JDict [(''text'', JStr '' good '')], JDict [(''author'', JStr ''x'')],
            JDict [(''text'', JStr ''c'')], JDict [(''text'', JStr ''d'')],
            JDict [(''text'', JStr ''e'')]]) = 5 \<and>
   review_snippets example_place = Inr [''good'', ''''] \<and>
   length [''good'', ''''] < (3::nat)"
proof -
  have third: "\<exists>r\<in>set (take 3 [JInt 7, JDict [(''text'', JStr '' good '')],
        JDict [(''author'', JStr ''x'')], JDict [(''text'', JStr ''c'')],
        JDict [(''text'', JStr ''d'')], JDict [(''text'', JStr ''e'')]]). \<forall>d. r \<noteq> JDict d"
    by simp
  from C10_slice_before_filter [OF example_place_reviews example_place_snippets third]
  show ?thesis
    using example_place_snippets by simp
qed

section \<open>The output file\<close>
































end
